theory Spec2Isabelle
  imports Complex_Main
begin

section \<open>multilingual\_t5/tasks.py: the task and mixture catalogue\<close>

text \<open>
  The module registers tasks and mixtures with the registries of the t5 library while it
  is imported, and defines one metric function, \<open>bleu\<close>. The embedding has three parts:
  the mixing rate (lines 29-31), the module body as the ordered list of its registry and
  table writes (lines 42-323 and 338-354), and \<open>bleu\<close> (lines 325-336).
\<close>

subsection \<open>Mixing rate (lines 29-31)\<close>

text \<open>\<^verbatim>\<open>DEFAULT_TEMPERATURE = 1.0 / 0.3\<close>, read over the reals.\<close>

definition DEFAULT_TEMPERATURE :: real where
  "DEFAULT_TEMPERATURE = 1 / (3 / 10)"

text \<open>
  Modelled from the spec: \<open>t5.data.utils.rate_num_examples\<close> belongs to the t5 library and
  is not part of the sources. The spec gives its contract: for a task's example count
  \<open>n\<close> and a temperature \<open>T\<close> the weight is \<open>n^(1/T)\<close>. The count stands for the task, the
  only attribute of it the contract reads.
\<close>

definition rate_num_examples :: "nat \<Rightarrow> real \<Rightarrow> real" where
  "rate_num_examples n temperature = real n powr (1 / temperature)"

text \<open>\<^verbatim>\<open>functools.partial(t5.data.utils.rate_num_examples, temperature=DEFAULT_TEMPERATURE)\<close>\<close>

definition DEFAULT_MIX_RATE :: "nat \<Rightarrow> real" where
  "DEFAULT_MIX_RATE task = rate_num_examples task DEFAULT_TEMPERATURE"

subsection \<open>Feature schema (lines 26, 33-40)\<close>

definition DEFAULT_SPM_PATH :: string where
  "DEFAULT_SPM_PATH = ''gs://t5-data/vocabs/mc4.250000.100extra/sentencepiece.model''"

datatype vocabulary = SentencePieceVocabulary string

text \<open>
  The keyword arguments of a \<open>t5.data.Feature(...)\<close> call. \<open>required\<close> is \<open>None\<close> when the
  call does not pass it; the value it then takes is the default of the library's class
  declaration, which is outside the sources and enters as the first argument of
  \<open>is_required\<close>.
\<close>

record feature =
  vocabulary :: vocabulary
  add_eos :: bool
  required :: "bool option"

definition is_required :: "bool \<Rightarrow> feature \<Rightarrow> bool" where
  "is_required library_default f = (case required f of None \<Rightarrow> library_default | Some b \<Rightarrow> b)"

definition DEFAULT_VOCAB :: vocabulary where
  "DEFAULT_VOCAB = SentencePieceVocabulary DEFAULT_SPM_PATH"

definition DEFAULT_OUTPUT_FEATURES :: "(string \<times> feature) list" where
  "DEFAULT_OUTPUT_FEATURES =
     [(''inputs'', \<lparr>vocabulary = DEFAULT_VOCAB, add_eos = True, required = Some False\<rparr>),
      (''targets'', \<lparr>vocabulary = DEFAULT_VOCAB, add_eos = True, required = None\<rparr>)]"

subsection \<open>What a registration passes to the registry\<close>

text \<open>
  The functions a task refers to live in the t5 library and in the modules
  \<open>preprocessors\<close> and \<open>utils\<close>; a task only names them, with the arguments bound by
  \<open>functools.partial\<close>.
\<close>

datatype preprocessor =
    rekey "(string \<times> string option) list"
  | span_corruption
  | process_mnli
  | process_xnli "string list"
  | glue string "string list" "string list" "string option"
  | xquad
  | parse_tsv "string list"

datatype postprocessor = string_label_to_class_id "string list" | qa

datatype metric = accuracy | squad | bleu_fn

datatype task_class = TfdsTask | TextLineTask

datatype dataset_function = pawsx_all_langs_dataset_fn | xquad_all_langs_dataset_fn

text \<open>\<open>splits\<close> is passed as a dict or as a list; \<open>text_preprocessor\<close> as one function or as a list.\<close>

datatype split_spec = Split_dict "(string \<times> string) list" | Split_list "string list"

datatype 'a one_or_list = One 'a | Listed "'a list"

text \<open>The arguments of one \<open>t5.data.TaskRegistry.add\<close> call; \<open>None\<close> is an argument not passed.\<close>

record task =
  name :: string
  task_cls :: "task_class option"
  tfds_name :: "string option"
  splits :: "split_spec option"
  dataset_fn :: "dataset_function option"
  split_to_filepattern :: "(string \<times> string) list option"
  text_preprocessor :: "preprocessor one_or_list"
  token_preprocessor :: "preprocessor option"
  output_features :: "(string \<times> feature) list"
  postprocess_fn :: "postprocessor option"
  metric_fns :: "metric list"

datatype default_rate = Rate_function "nat \<Rightarrow> real" | Rate_constant real

text \<open>
  The statements of the module that write outside it, in the order they run: a task
  registration, a mixture registration (name, task names, \<open>default_rate\<close>), and the
  assignment \<open>TOKENIZERS[key] = function\<close>.
\<close>

datatype stmt =
    TaskRegistry_add task
  | MixtureRegistry_add string "string list" default_rate
  | TOKENIZERS_setitem string "string \<Rightarrow> string"

text \<open>
  Values the module imports and the sources do not contain: the language lists
  \<open>tfds.text.c4.MC4_LANGUAGES\<close>, \<open>utils.PAWSX_LANGS\<close>, \<open>utils.XQUAD_LANGS_TRAIN_DEV\<close> and
  \<open>utils.XQUAD_LANGS_TEST\<close>, and the method \<open>LangJA.tokenize_with_preprocess\<close>. They are
  parameters of the model.
\<close>

record externals =
  MC4_LANGUAGES :: "string list"
  PAWSX_LANGS :: "string list"
  XQUAD_LANGS_TRAIN_DEV :: "string list"
  XQUAD_LANGS_TEST :: "string list"
  tokenize_with_preprocess :: "string \<Rightarrow> string list"

subsection \<open>Name templating\<close>

text \<open>\<open>s.replace(old, new)\<close> for one-character \<open>old\<close> and \<open>new\<close>, the only use in the module.\<close>

definition str_replace :: "char \<Rightarrow> char \<Rightarrow> string \<Rightarrow> string" where
  "str_replace old new s = map (\<lambda>c. if c = old then new else c) s"

definition mc4_name :: "string \<Rightarrow> string" where
  "mc4_name lang = ''mc4.'' @ str_replace CHR ''-'' CHR ''_'' lang"

definition wiki_name :: "string \<Rightarrow> string" where
  "wiki_name lang = ''wiki.'' @ str_replace CHR ''-'' CHR ''_'' lang"

definition xnli_dev_test_name :: "string \<Rightarrow> string" where
  "xnli_dev_test_name lang = ''xnli_dev_test.'' @ lang"

definition pawsx_dev_test_name :: "string \<Rightarrow> string" where
  "pawsx_dev_test_name lang = ''pawsx_dev_test.'' @ lang"

definition pawsx_translate_name :: "string \<Rightarrow> string" where
  "pawsx_translate_name lang = ''pawsx_translate.'' @ lang"

definition tydiqa_dev_name :: "string \<Rightarrow> string" where
  "tydiqa_dev_name lang = ''tydiqa_dev.'' @ lang"

definition xquad_translate_train_dev_name :: "string \<Rightarrow> string" where
  "xquad_translate_train_dev_name lang = ''xquad_translate_train_dev.'' @ lang"

definition xquad_test_name :: "string \<Rightarrow> string" where
  "xquad_test_name lang = ''xquad_test.'' @ lang"

subsection \<open>Pretraining tasks and mixtures (lines 42-104)\<close>

definition MC4_LANGS :: "externals \<Rightarrow> string list" where
  "MC4_LANGS E = MC4_LANGUAGES E"

definition WIKI_LANGS :: "string list" where
  "WIKI_LANGS =
    [''af'', ''an'', ''ar'', ''ast'', ''az'', ''azb'', ''ba'', ''bar'', ''be'', ''bg'', ''bn'', ''bpy'',
     ''br'', ''bs'', ''ca'', ''ce'', ''ceb'', ''cs'', ''cv'', ''cy'', ''da'', ''de'', ''el'', ''en'',
     ''es'', ''et'', ''eu'', ''fa'', ''fi'', ''fr'', ''fy'', ''ga'', ''gl'', ''gu'', ''he'', ''hi'',
     ''hr'', ''ht'', ''hu'', ''hy'', ''id'', ''io'', ''is'', ''it'', ''ja'', ''jv'', ''ka'', ''kk'',
     ''kn'', ''ko'', ''ky'', ''la'', ''lb'', ''lmo'', ''lt'', ''lv'', ''mg'', ''min'', ''mk'', ''ml'',
     ''mn'', ''mr'', ''ms'', ''my'', ''nds-nl'', ''ne'', ''new'', ''nl'', ''nn'', ''no'', ''oc'',
     ''pa'', ''pl'', ''pms'', ''pnb'', ''pt'', ''ro'', ''ru'', ''scn'', ''sco'', ''sh'', ''sk'', ''sl'',
     ''sq'', ''sr'', ''su'', ''sv'', ''sw'', ''ta'', ''te'', ''tg'', ''th'', ''tl'', ''tr'', ''tt'',
     ''uk'', ''ur'', ''uz'', ''vi'', ''vo'', ''war'', ''yo'', ''zh'']"

definition mc4_task :: "string \<Rightarrow> task" where
  "mc4_task lang =
     \<lparr>name = mc4_name lang,
      task_cls = Some TfdsTask,
      tfds_name = Some ''c4/multilingual:3.0.1'',
      splits = Some (Split_dict [(''train'', lang), (''validation'', lang @ ''-validation'')]),
      dataset_fn = None,
      split_to_filepattern = None,
      text_preprocessor = One (rekey [(''inputs'', None), (''targets'', Some ''text'')]),
      token_preprocessor = Some span_corruption,
      output_features = DEFAULT_OUTPUT_FEATURES,
      postprocess_fn = None,
      metric_fns = []\<rparr>"

definition mc4 :: "externals \<Rightarrow> string list" where
  "mc4 E = map mc4_name (MC4_LANGS E)"

definition wiki_task :: "string \<Rightarrow> task" where
  "wiki_task lang =
     \<lparr>name = wiki_name lang,
      task_cls = Some TfdsTask,
      tfds_name = Some (''wikipedia/20200301.'' @ lang @ '':1.0.0''),
      splits = None,
      dataset_fn = None,
      split_to_filepattern = None,
      text_preprocessor = Listed [rekey [(''inputs'', None), (''targets'', Some ''text'')]],
      token_preprocessor = Some span_corruption,
      output_features = DEFAULT_OUTPUT_FEATURES,
      postprocess_fn = None,
      metric_fns = []\<rparr>"

definition wiki :: "string list" where
  "wiki = map wiki_name WIKI_LANGS"

definition pretraining_section :: "externals \<Rightarrow> stmt list" where
  "pretraining_section E =
     map (\<lambda>lang. TaskRegistry_add (mc4_task lang)) (MC4_LANGS E)
     @ [MixtureRegistry_add ''mc4'' (mc4 E) (Rate_function DEFAULT_MIX_RATE)]
     @ map (\<lambda>lang. TaskRegistry_add (wiki_task lang)) WIKI_LANGS
     @ [MixtureRegistry_add ''wiki'' wiki (Rate_function DEFAULT_MIX_RATE),
        MixtureRegistry_add ''mc4_wiki'' (mc4 E @ wiki) (Rate_function DEFAULT_MIX_RATE)]"

subsection \<open>XNLI (lines 111-149)\<close>

definition XNLI_LANGS :: "string list" where
  "XNLI_LANGS =
    [''ar'', ''bg'', ''de'', ''el'', ''en'', ''es'', ''fr'', ''hi'', ''ru'', ''sw'', ''th'', ''tr'',
     ''ur'', ''vi'', ''zh'']"

definition xnli_train_task :: task where
  "xnli_train_task =
     \<lparr>name = ''xnli_train'',
      task_cls = Some TfdsTask,
      tfds_name = Some ''multi_nli/plain_text:1.0.0'',
      splits = Some (Split_list [''train'']),
      dataset_fn = None,
      split_to_filepattern = None,
      text_preprocessor = One process_mnli,
      token_preprocessor = None,
      output_features = DEFAULT_OUTPUT_FEATURES,
      postprocess_fn = None,
      metric_fns = [accuracy]\<rparr>"

definition xnli_dev_test_task :: "string \<Rightarrow> task" where
  "xnli_dev_test_task lang =
     \<lparr>name = xnli_dev_test_name lang,
      task_cls = Some TfdsTask,
      tfds_name = Some ''xnli:1.1.0'',
      splits = Some (Split_list [''validation'', ''test'']),
      dataset_fn = None,
      split_to_filepattern = None,
      text_preprocessor = Listed [process_xnli [lang]],
      token_preprocessor = None,
      output_features = DEFAULT_OUTPUT_FEATURES,
      postprocess_fn = None,
      metric_fns = [accuracy]\<rparr>"

definition xnli_dev_test_all_langs_task :: task where
  "xnli_dev_test_all_langs_task =
     \<lparr>name = ''xnli_dev_test.all_langs'',
      task_cls = Some TfdsTask,
      tfds_name = Some ''xnli:1.1.0'',
      splits = Some (Split_list [''validation'', ''test'']),
      dataset_fn = None,
      split_to_filepattern = None,
      text_preprocessor = Listed [process_xnli XNLI_LANGS],
      token_preprocessor = None,
      output_features = DEFAULT_OUTPUT_FEATURES,
      postprocess_fn = None,
      metric_fns = [accuracy]\<rparr>"

definition xnli_zeroshot :: "string list" where
  "xnli_zeroshot =
     [''xnli_train'', ''xnli_dev_test.all_langs''] @ map xnli_dev_test_name XNLI_LANGS"

definition xnli_section :: "stmt list" where
  "xnli_section =
     [TaskRegistry_add xnli_train_task]
     @ map (\<lambda>lang. TaskRegistry_add (xnli_dev_test_task lang)) XNLI_LANGS
     @ [TaskRegistry_add xnli_dev_test_all_langs_task,
        MixtureRegistry_add ''xnli_zeroshot'' xnli_zeroshot (Rate_constant 1)]"

subsection \<open>PAWS-X (lines 152-217)\<close>

definition label_names :: "string list" where
  "label_names = [''different_meaning'', ''paraphrase'']"

definition paws_text_preprocessor :: "preprocessor one_or_list" where
  "paws_text_preprocessor =
     Listed [glue ''paws'' label_names [''sentence1'', ''sentence2''] None]"

definition paws_postprocess_fn :: postprocessor where
  "paws_postprocess_fn = string_label_to_class_id label_names"

definition paws_task :: task where
  "paws_task =
     \<lparr>name = ''paws'',
      task_cls = Some TfdsTask,
      tfds_name = Some ''paws_x_wiki/en:1.0.0'',
      splits = Some (Split_list [''train'']),
      dataset_fn = None,
      split_to_filepattern = None,
      text_preprocessor = paws_text_preprocessor,
      token_preprocessor = None,
      output_features = DEFAULT_OUTPUT_FEATURES,
      postprocess_fn = Some paws_postprocess_fn,
      metric_fns = [accuracy]\<rparr>"

definition pawsx_dev_test_task :: "string \<Rightarrow> task" where
  "pawsx_dev_test_task lang =
     \<lparr>name = pawsx_dev_test_name lang,
      task_cls = Some TfdsTask,
      tfds_name = Some (''paws_x_wiki/'' @ lang @ '':1.0.0''),
      splits = Some (Split_list [''validation'', ''test'']),
      dataset_fn = None,
      split_to_filepattern = None,
      text_preprocessor = paws_text_preprocessor,
      token_preprocessor = None,
      output_features = DEFAULT_OUTPUT_FEATURES,
      postprocess_fn = Some paws_postprocess_fn,
      metric_fns = [accuracy]\<rparr>"

definition pawsx_translate_task :: "string \<Rightarrow> task" where
  "pawsx_translate_task lang =
     \<lparr>name = pawsx_translate_name lang,
      task_cls = Some TfdsTask,
      tfds_name = Some (''paws_x_wiki/'' @ lang @ '':1.0.0''),
      splits = Some (Split_list [''train'']),
      dataset_fn = None,
      split_to_filepattern = None,
      text_preprocessor = paws_text_preprocessor,
      token_preprocessor = None,
      output_features = DEFAULT_OUTPUT_FEATURES,
      postprocess_fn = Some paws_postprocess_fn,
      metric_fns = [accuracy]\<rparr>"

definition pawsx_dev_test_all_langs_task :: task where
  "pawsx_dev_test_all_langs_task =
     \<lparr>name = ''pawsx_dev_test.all_langs'',
      task_cls = None,
      tfds_name = None,
      splits = Some (Split_list [''validation'', ''test'']),
      dataset_fn = Some pawsx_all_langs_dataset_fn,
      split_to_filepattern = None,
      text_preprocessor = paws_text_preprocessor,
      token_preprocessor = None,
      output_features = DEFAULT_OUTPUT_FEATURES,
      postprocess_fn = Some paws_postprocess_fn,
      metric_fns = [accuracy]\<rparr>"

definition pawsx :: "externals \<Rightarrow> string list" where
  "pawsx E =
     [''paws''] @ [''pawsx_dev_test.all_langs''] @ map pawsx_dev_test_name (PAWSX_LANGS E)"

definition pawsx_translate :: "externals \<Rightarrow> string list" where
  "pawsx_translate E =
     map pawsx_translate_name (PAWSX_LANGS E) @ [''pawsx_dev_test.all_langs'']
     @ map pawsx_dev_test_name (PAWSX_LANGS E)"

text \<open>The loop of lines 176-195 registers two tasks for each language, one after the other.\<close>

definition paws_section :: "externals \<Rightarrow> stmt list" where
  "paws_section E =
     [TaskRegistry_add paws_task]
     @ concat (map (\<lambda>lang. [TaskRegistry_add (pawsx_dev_test_task lang),
                             TaskRegistry_add (pawsx_translate_task lang)]) (PAWSX_LANGS E))
     @ [TaskRegistry_add pawsx_dev_test_all_langs_task,
        MixtureRegistry_add ''pawsx_zeroshot'' (pawsx E) (Rate_constant 1),
        MixtureRegistry_add ''pawsx_translate'' (pawsx_translate E) (Rate_constant 1)]"

subsection \<open>TyDiQA (lines 222-246)\<close>

definition TYDIQA_LANGS :: "string list" where
  "TYDIQA_LANGS = [''ar'', ''bn'', ''en'', ''fi'', ''id'', ''ko'', ''ru'', ''sw'', ''te'']"

definition tydiqa_train_dev_task :: task where
  "tydiqa_train_dev_task =
     \<lparr>name = ''tydiqa_train_dev'',
      task_cls = Some TfdsTask,
      tfds_name = Some ''tydi_qa/goldp:2.0.0'',
      splits = Some (Split_list [''train'', ''validation'']),
      dataset_fn = None,
      split_to_filepattern = None,
      text_preprocessor = One xquad,
      token_preprocessor = None,
      output_features = DEFAULT_OUTPUT_FEATURES,
      postprocess_fn = Some qa,
      metric_fns = [squad]\<rparr>"

definition tydiqa_dev_task :: "string \<Rightarrow> task" where
  "tydiqa_dev_task lang =
     \<lparr>name = tydiqa_dev_name lang,
      task_cls = Some TfdsTask,
      tfds_name = Some ''tydi_qa/goldp:2.0.0'',
      splits = Some (Split_dict [(''validation'', ''validation-'' @ lang)]),
      dataset_fn = None,
      split_to_filepattern = None,
      text_preprocessor = One xquad,
      token_preprocessor = None,
      output_features = DEFAULT_OUTPUT_FEATURES,
      postprocess_fn = Some qa,
      metric_fns = [squad]\<rparr>"

definition tydiqa :: "string list" where
  "tydiqa = [''tydiqa_train_dev''] @ map tydiqa_dev_name TYDIQA_LANGS"

definition tydiqa_section :: "stmt list" where
  "tydiqa_section =
     [TaskRegistry_add tydiqa_train_dev_task]
     @ map (\<lambda>lang. TaskRegistry_add (tydiqa_dev_task lang)) TYDIQA_LANGS
     @ [MixtureRegistry_add ''tydiqa'' tydiqa (Rate_constant 1)]"

subsection \<open>SQuAD and XQuAD (lines 250-313)\<close>

definition squad_train_dev_task :: task where
  "squad_train_dev_task =
     \<lparr>name = ''squad_train_dev'',
      task_cls = Some TfdsTask,
      tfds_name = Some ''squad/v1.1:2.0.0'',
      splits = Some (Split_list [''train'', ''validation'']),
      dataset_fn = None,
      split_to_filepattern = None,
      text_preprocessor = One xquad,
      token_preprocessor = None,
      output_features = DEFAULT_OUTPUT_FEATURES,
      postprocess_fn = Some qa,
      metric_fns = [squad]\<rparr>"

definition xquad_translate_train_dev_task :: "string \<Rightarrow> task" where
  "xquad_translate_train_dev_task lang =
     \<lparr>name = xquad_translate_train_dev_name lang,
      task_cls = Some TfdsTask,
      tfds_name = Some (''xquad/'' @ lang @ '':2.0.0''),
      splits = Some (Split_dict [(''train'', ''translate-train''),
                                 (''validation'', ''translate-dev'')]),
      dataset_fn = None,
      split_to_filepattern = None,
      text_preprocessor = One xquad,
      token_preprocessor = None,
      output_features = DEFAULT_OUTPUT_FEATURES,
      postprocess_fn = Some qa,
      metric_fns = [squad]\<rparr>"

definition xquad_test_task :: "string \<Rightarrow> task" where
  "xquad_test_task lang =
     \<lparr>name = xquad_test_name lang,
      task_cls = Some TfdsTask,
      tfds_name = Some (''xquad/'' @ lang @ '':2.0.0''),
      splits = Some (Split_list [''test'']),
      dataset_fn = None,
      split_to_filepattern = None,
      text_preprocessor = One xquad,
      token_preprocessor = None,
      output_features = DEFAULT_OUTPUT_FEATURES,
      postprocess_fn = Some qa,
      metric_fns = [squad]\<rparr>"

definition xquad_test_all_langs_task :: task where
  "xquad_test_all_langs_task =
     \<lparr>name = ''xquad_test.all_langs'',
      task_cls = None,
      tfds_name = None,
      splits = Some (Split_list [''test'']),
      dataset_fn = Some xquad_all_langs_dataset_fn,
      split_to_filepattern = None,
      text_preprocessor = One xquad,
      token_preprocessor = None,
      output_features = DEFAULT_OUTPUT_FEATURES,
      postprocess_fn = Some qa,
      metric_fns = [squad]\<rparr>"

definition xquad_test :: "externals \<Rightarrow> string list" where
  "xquad_test E = map xquad_test_name (XQUAD_LANGS_TEST E)"

definition xquad_zeroshot :: "externals \<Rightarrow> string list" where
  "xquad_zeroshot E = [''squad_train_dev'', ''xquad_test.all_langs''] @ xquad_test E"

definition xquad_translate_train_dev :: "externals \<Rightarrow> string list" where
  "xquad_translate_train_dev E =
     map xquad_translate_train_dev_name (XQUAD_LANGS_TRAIN_DEV E) @ [''squad_train_dev'']"

definition xquad_translate :: "externals \<Rightarrow> string list" where
  "xquad_translate E =
     xquad_translate_train_dev E @ [''xquad_test.all_langs''] @ xquad_test E"

definition xquad_section :: "externals \<Rightarrow> stmt list" where
  "xquad_section E =
     [TaskRegistry_add squad_train_dev_task]
     @ map (\<lambda>lang. TaskRegistry_add (xquad_translate_train_dev_task lang))
         (XQUAD_LANGS_TRAIN_DEV E)
     @ map (\<lambda>lang. TaskRegistry_add (xquad_test_task lang)) (XQUAD_LANGS_TEST E)
     @ [TaskRegistry_add xquad_test_all_langs_task,
        MixtureRegistry_add ''xquad_zeroshot'' (xquad_zeroshot E) (Rate_constant 1),
        MixtureRegistry_add ''xquad_translate'' (xquad_translate E) (Rate_constant 1)]"

subsection \<open>The Japanese tokenizer and the snow task (lines 316-323, 338-354)\<close>

text \<open>\<open>" ".join(words)\<close>\<close>

fun join_space :: "string list \<Rightarrow> string" where
  "join_space [] = []"
| "join_space [w] = w"
| "join_space (w # v # ws) = w @ '' '' @ join_space (v # ws)"

definition tokenizer_ja :: "externals \<Rightarrow> string \<Rightarrow> string" where
  "tokenizer_ja E text = join_space (tokenize_with_preprocess E text)"

definition snow_tsv_path :: "(string \<times> string) list" where
  "snow_tsv_path =
     [(''train'', ''./snow_t15_23_train.tsv''),
      (''validation'', ''./snow_t15_23_dev.tsv''),
      (''test'', ''./snow_t15_23_test.tsv'')]"

definition snow_task :: task where
  "snow_task =
     \<lparr>name = ''snow'',
      task_cls = Some TextLineTask,
      tfds_name = None,
      splits = None,
      dataset_fn = None,
      split_to_filepattern = Some snow_tsv_path,
      text_preprocessor = Listed [parse_tsv [''inputs'', ''targets'']],
      token_preprocessor = None,
      output_features = DEFAULT_OUTPUT_FEATURES,
      postprocess_fn = None,
      metric_fns = [bleu_fn]\<rparr>"

definition snow_section :: "externals \<Rightarrow> stmt list" where
  "snow_section E =
     [TOKENIZERS_setitem ''ja'' (tokenizer_ja E),
      TaskRegistry_add snow_task]"

subsection \<open>The module body and its effect\<close>

definition module_body :: "externals \<Rightarrow> stmt list" where
  "module_body E =
     pretraining_section E @ xnli_section @ paws_section E @ tydiqa_section
     @ xquad_section E @ snow_section E"

text \<open>
  The state the module writes: the two registries, kept as the sequence of entries added
  to them, and sacrebleu's table \<open>TOKENIZERS\<close>, a dict from tokenizer names to functions.
\<close>

record module_state =
  tasks :: "task list"
  mixtures :: "(string \<times> string list \<times> default_rate) list"
  TOKENIZERS :: "string \<rightharpoonup> (string \<Rightarrow> string)"

fun exec_stmt :: "stmt \<Rightarrow> module_state \<Rightarrow> module_state" where
  "exec_stmt (TaskRegistry_add t) s = s\<lparr>tasks := tasks s @ [t]\<rparr>"
| "exec_stmt (MixtureRegistry_add n ts r) s = s\<lparr>mixtures := mixtures s @ [(n, ts, r)]\<rparr>"
| "exec_stmt (TOKENIZERS_setitem k f) s = s\<lparr>TOKENIZERS := (TOKENIZERS s)(k \<mapsto> f)\<rparr>"

definition import_module :: "externals \<Rightarrow> module_state \<Rightarrow> module_state" where
  "import_module E s = fold exec_stmt (module_body E) s"

text \<open>
  Reading the trace: the tasks registered and their names, the names of the mixtures
  registered, and the writes to \<open>TOKENIZERS\<close>, each in the order of the statements.
\<close>

fun registered_task :: "stmt \<Rightarrow> task list" where
  "registered_task (TaskRegistry_add t) = [t]"
| "registered_task (MixtureRegistry_add n ts r) = []"
| "registered_task (TOKENIZERS_setitem k f) = []"

definition registered_tasks :: "stmt list \<Rightarrow> task list" where
  "registered_tasks body = concat (map registered_task body)"

definition registered_names :: "stmt list \<Rightarrow> string list" where
  "registered_names body = map name (registered_tasks body)"

fun registered_mixture :: "stmt \<Rightarrow> string list" where
  "registered_mixture (TaskRegistry_add t) = []"
| "registered_mixture (MixtureRegistry_add n ts r) = [n]"
| "registered_mixture (TOKENIZERS_setitem k f) = []"

definition registered_mixtures :: "stmt list \<Rightarrow> string list" where
  "registered_mixtures body = concat (map registered_mixture body)"

fun table_write :: "stmt \<Rightarrow> (string \<times> (string \<Rightarrow> string)) list" where
  "table_write (TaskRegistry_add t) = []"
| "table_write (MixtureRegistry_add n ts r) = []"
| "table_write (TOKENIZERS_setitem k f) = [(k, f)]"

definition table_writes :: "stmt list \<Rightarrow> (string \<times> (string \<Rightarrow> string)) list" where
  "table_writes body = concat (map table_write body)"

subsection \<open>The metric function bleu (lines 325-336)\<close>

text \<open>
  The names bound at module level once the import has run: the imports of lines 16-24 and
  316-317, the assignments, the loop variable and the two \<open>def\<close>s (the names every module
  has, such as \<open>__name__\<close>, are left out). The module has no \<open>import tensorflow as tf\<close>;
  \<open>tensorflow_datasets\<close> is bound as \<open>tfds\<close>.
\<close>

definition module_globals :: "string list" where
  "module_globals =
    [''functools'', ''preprocessors'', ''utils'', ''t5'', ''sentencepiece_vocabulary'',
     ''metrics'', ''tfds'', ''DEFAULT_SPM_PATH'', ''DEFAULT_TEMPERATURE'', ''DEFAULT_MIX_RATE'',
     ''DEFAULT_VOCAB'', ''DEFAULT_OUTPUT_FEATURES'', ''MC4_LANGS'', ''WIKI_LANGS'', ''lang'',
     ''mc4'', ''wiki'', ''XNLI_LANGS'', ''xnli_zeroshot'', ''label_names'', ''text_preprocessor'',
     ''postprocess_fn'', ''pawsx'', ''pawsx_translate'', ''TYDIQA_LANGS'', ''tydiqa'',
     ''xquad_test'', ''xquad_zeroshot'', ''xquad_translate_train_dev'', ''xquad_translate'',
     ''LangJA'', ''corpus_bleu'', ''TOKENIZERS'', ''lang_ja'', ''tokenizer_ja'', ''bleu'',
     ''snow_tsv_path'']"

text \<open>The builtins that \<open>bleu\<close> names; Python has no builtin called \<open>tf\<close>.\<close>

definition builtin_names :: "string list" where
  "builtin_names = [''isinstance'', ''list'']"

datatype error = NameError string | IndexError

text \<open>
  A name that is not local to the function is looked up in the module's globals, then in
  the builtins, and raises \<open>NameError\<close> when neither binds it.
\<close>

definition load_global :: "string \<Rightarrow> error + unit" where
  "load_global n =
     (if n \<in> set module_globals \<or> n \<in> set builtin_names then Inr () else Inl (NameError n))"

text \<open>The values \<open>bleu\<close> receives: a text, or a list of values.\<close>

datatype pyval = Text string | List "pyval list"

fun isinstance_list :: "pyval \<Rightarrow> bool" where
  "isinstance_list (List xs) = True"
| "isinstance_list (Text t) = False"

text \<open>\<open>for x in v\<close>: the elements of a list, the characters of a text.\<close>

fun iter :: "pyval \<Rightarrow> pyval list" where
  "iter (List xs) = xs"
| "iter (Text t) = map (\<lambda>c. Text [c]) t"

text \<open>The keyword arguments of the \<open>corpus_bleu\<close> call.\<close>

record bleu_kwargs =
  smooth_method :: string
  smooth_value :: real
  force :: bool
  lowercase :: bool
  tokenize :: string
  use_effective_order :: bool

text \<open>
  Library functions the sources do not contain: sacrebleu's \<open>corpus_bleu\<close>, reduced to the
  \<open>score\<close> of its result and reading the table \<open>TOKENIZERS\<close>, and the function that
  \<open>tf.compat.as_text\<close> would denote were \<open>tf\<close> bound.
\<close>

record scoring_library =
  as_text :: "pyval \<Rightarrow> error + pyval"
  corpus_bleu :: "pyval list \<Rightarrow> pyval list \<Rightarrow> bleu_kwargs
                  \<Rightarrow> (string \<rightharpoonup> (string \<Rightarrow> string)) \<Rightarrow> real"

text \<open>The expression \<open>tf.compat.as_text(x)\<close>: the name \<open>tf\<close> is loaded first.\<close>

definition tf_compat_as_text :: "scoring_library \<Rightarrow> pyval \<Rightarrow> error + pyval" where
  "tf_compat_as_text L x =
     (case load_global ''tf'' of Inl e \<Rightarrow> Inl e | Inr u \<Rightarrow> as_text L x)"

text \<open>
  A list comprehension \<open>[f(x) for x in xs]\<close>: the elements in order, stopping at the first
  exception; over an empty list \<open>f\<close> is not evaluated at all.
\<close>

fun comprehension :: "('a \<Rightarrow> error + 'b) \<Rightarrow> 'a list \<Rightarrow> error + 'b list" where
  "comprehension f [] = Inr []"
| "comprehension f (x # xs) =
     (case f x of
        Inl e \<Rightarrow> Inl e
      | Inr y \<Rightarrow> (case comprehension f xs of Inl e \<Rightarrow> Inl e | Inr ys \<Rightarrow> Inr (y # ys)))"

text \<open>Lines 328-332: \<open>targets[0]\<close> raises \<open>IndexError\<close> on an empty list.\<close>

definition convert_targets :: "scoring_library \<Rightarrow> pyval list \<Rightarrow> error + pyval list" where
  "convert_targets L targets =
     (case targets of
        [] \<Rightarrow> Inl IndexError
      | t0 # rest \<Rightarrow>
          if isinstance_list t0
          then comprehension
                 (\<lambda>target. case comprehension (tf_compat_as_text L) (iter target) of
                              Inl e \<Rightarrow> Inl e | Inr ts \<Rightarrow> Inr (List ts))
                 targets
          else (case comprehension (tf_compat_as_text L) targets of
                  Inl e \<Rightarrow> Inl e | Inr ts \<Rightarrow> Inr [List ts]))"

definition corpus_bleu_kwargs :: bleu_kwargs where
  "corpus_bleu_kwargs =
     \<lparr>smooth_method = ''exp'', smooth_value = 0, force = False, lowercase = False,
      tokenize = ''ja'', use_effective_order = False\<rparr>"

definition bleu_result ::
  "scoring_library \<Rightarrow> (string \<rightharpoonup> (string \<Rightarrow> string)) \<Rightarrow> pyval list \<Rightarrow> pyval list
   \<Rightarrow> error + (string \<times> real) list" where
  "bleu_result L table targets predictions =
     (case comprehension (tf_compat_as_text L) predictions of
        Inl e \<Rightarrow> Inl e
      | Inr predictions1 \<Rightarrow>
          (case convert_targets L targets of
             Inl e \<Rightarrow> Inl e
           | Inr targets1 \<Rightarrow>
               (case load_global ''corpus_bleu'' of
                  Inl e \<Rightarrow> Inl e
                | Inr u \<Rightarrow>
                    Inr [(''bleu'',
                          corpus_bleu L predictions1 targets1 corpus_bleu_kwargs table)])))"

text \<open>
  A call of \<open>bleu\<close> in a state of the module: the function body assigns only to its local
  names, so the state it leaves is the one it found.
\<close>

definition bleu ::
  "scoring_library \<Rightarrow> module_state \<Rightarrow> pyval list \<Rightarrow> pyval list
   \<Rightarrow> (error + (string \<times> real) list) \<times> module_state" where
  "bleu L s targets predictions = (bleu_result L (TOKENIZERS s) targets predictions, s)"

subsection \<open>A small environment for concrete runs\<close>

definition example_externals :: externals where
  "example_externals =
     \<lparr>MC4_LANGUAGES = [''af'', ''bg-Latn''],
      PAWSX_LANGS = [''de'', ''en''],
      XQUAD_LANGS_TRAIN_DEV = [''ar''],
      XQUAD_LANGS_TEST = [''ar'', ''en''],
      tokenize_with_preprocess = (\<lambda>text. [text])\<rparr>"

definition example_library :: scoring_library where
  "example_library = \<lparr>as_text = Inr, corpus_bleu = (\<lambda>sys refs kwargs table. 100)\<rparr>"

definition empty_state :: module_state where
  "empty_state = \<lparr>tasks = [], mixtures = [], TOKENIZERS = Map.empty\<rparr>"

subsection \<open>Mixtures whose tasks are registered when they are built\<close>

text \<open>
  \<open>mixtures_resolved seen body\<close> runs through the statements with the task names
  registered so far and checks, at each mixture, that its task names are among them.
\<close>

fun mixtures_resolved :: "string list \<Rightarrow> stmt list \<Rightarrow> bool" where
  "mixtures_resolved seen [] = True"
| "mixtures_resolved seen (TaskRegistry_add t # body) =
     mixtures_resolved (seen @ [name t]) body"
| "mixtures_resolved seen (MixtureRegistry_add n ts r # body) =
     (set ts \<subseteq> set seen \<and> mixtures_resolved seen body)"
| "mixtures_resolved seen (TOKENIZERS_setitem k f # body) = mixtures_resolved seen body"

section \<open>Properties\<close>

subsection \<open>Mixing rate\<close>

text \<open>
  C1. The default mixture rate of a task with \<open>n\<close> examples is \<open>n\<close> raised to \<open>1/T\<close> for the
  configured temperature \<open>T = 1/0.3\<close>, which is \<open>n^0.3\<close>; this holds for every count, the
  positive ones in particular.
\<close>

theorem default_mix_rate_exponent:
  "DEFAULT_MIX_RATE n = real n powr (1 / DEFAULT_TEMPERATURE)
   \<and> DEFAULT_MIX_RATE n = real n powr (3 / 10)"
  by (simp add: DEFAULT_MIX_RATE_def rate_num_examples_def DEFAULT_TEMPERATURE_def)

text \<open>
  C7. For a fixed positive temperature the rate does not decrease when the example count
  grows.
\<close>

theorem rate_num_examples_mono:
  assumes "0 < T" and "m \<le> n"
  shows "rate_num_examples m T \<le> rate_num_examples n T"
  unfolding rate_num_examples_def using assms by (intro powr_mono2) simp_all

theorem rate_num_examples_mono_witness:
  "(0::real) < 1 \<and> (1::nat) \<le> 2 \<and> rate_num_examples 1 1 \<le> rate_num_examples 2 1"
  using rate_num_examples_mono [of 1 1 2] by simp

subsection \<open>Reading the module body\<close>

lemma registered_tasks_Nil [simp]: "registered_tasks [] = []"
  by (simp add: registered_tasks_def)

lemma registered_tasks_Cons [simp]:
  "registered_tasks (x # xs) = registered_task x @ registered_tasks xs"
  by (simp add: registered_tasks_def)

lemma registered_tasks_append [simp]:
  "registered_tasks (xs @ ys) = registered_tasks xs @ registered_tasks ys"
  by (simp add: registered_tasks_def)

lemma registered_tasks_map [simp]:
  "registered_tasks (map (\<lambda>lang. TaskRegistry_add (f lang)) ls) = map f ls"
  by (induction ls) simp_all

lemma registered_tasks_pairs [simp]:
  "registered_tasks
     (concat (map (\<lambda>lang. [TaskRegistry_add (f lang), TaskRegistry_add (g lang)]) ls))
   = concat (map (\<lambda>lang. [f lang, g lang]) ls)"
  by (induction ls) simp_all

lemmas section_defs =
  module_body_def pretraining_section_def xnli_section_def paws_section_def
  tydiqa_section_def xquad_section_def snow_section_def

lemmas task_defs =
  mc4_task_def wiki_task_def xnli_train_task_def xnli_dev_test_task_def
  xnli_dev_test_all_langs_task_def paws_task_def pawsx_dev_test_task_def
  pawsx_translate_task_def pawsx_dev_test_all_langs_task_def tydiqa_train_dev_task_def
  tydiqa_dev_task_def squad_train_dev_task_def xquad_translate_train_dev_task_def
  xquad_test_task_def xquad_test_all_langs_task_def snow_task_def

lemmas name_defs =
  mc4_name_def wiki_name_def xnli_dev_test_name_def pawsx_dev_test_name_def
  pawsx_translate_name_def tydiqa_dev_name_def xquad_translate_train_dev_name_def
  xquad_test_name_def

text \<open>The tasks the module registers, in order, for any value of the imported lists.\<close>

lemma registered_tasks_module_body:
  "registered_tasks (module_body E) =
     map mc4_task (MC4_LANGS E) @ map wiki_task WIKI_LANGS
     @ [xnli_train_task] @ map xnli_dev_test_task XNLI_LANGS @ [xnli_dev_test_all_langs_task]
     @ [paws_task]
     @ concat (map (\<lambda>lang. [pawsx_dev_test_task lang, pawsx_translate_task lang])
         (PAWSX_LANGS E))
     @ [pawsx_dev_test_all_langs_task]
     @ [tydiqa_train_dev_task] @ map tydiqa_dev_task TYDIQA_LANGS
     @ [squad_train_dev_task]
     @ map xquad_translate_train_dev_task (XQUAD_LANGS_TRAIN_DEV E)
     @ map xquad_test_task (XQUAD_LANGS_TEST E)
     @ [xquad_test_all_langs_task]
     @ [snow_task]"
  by (simp add: section_defs)

lemma task_names [simp]:
  "name (mc4_task l) = mc4_name l"
  "name (wiki_task l) = wiki_name l"
  "name xnli_train_task = ''xnli_train''"
  "name (xnli_dev_test_task l) = xnli_dev_test_name l"
  "name xnli_dev_test_all_langs_task = ''xnli_dev_test.all_langs''"
  "name paws_task = ''paws''"
  "name (pawsx_dev_test_task l) = pawsx_dev_test_name l"
  "name (pawsx_translate_task l) = pawsx_translate_name l"
  "name pawsx_dev_test_all_langs_task = ''pawsx_dev_test.all_langs''"
  "name tydiqa_train_dev_task = ''tydiqa_train_dev''"
  "name (tydiqa_dev_task l) = tydiqa_dev_name l"
  "name squad_train_dev_task = ''squad_train_dev''"
  "name (xquad_translate_train_dev_task l) = xquad_translate_train_dev_name l"
  "name (xquad_test_task l) = xquad_test_name l"
  "name xquad_test_all_langs_task = ''xquad_test.all_langs''"
  "name snow_task = ''snow''"
  by (simp_all add: task_defs)

lemma map_name_pairs:
  "map name (concat (map (\<lambda>lang. [f lang, g lang]) ls))
   = concat (map (\<lambda>lang. [name (f lang), name (g lang)]) ls)"
  by (induction ls) simp_all

lemma set_pairs:
  "set (concat (map (\<lambda>lang. [f lang, g lang]) ls)) = f ` set ls \<union> g ` set ls"
  by (induction ls) auto

lemma registered_names_Nil [simp]: "registered_names [] = []"
  by (simp add: registered_names_def)

lemma registered_names_Cons [simp]:
  "registered_names (x # xs) = map name (registered_task x) @ registered_names xs"
  by (simp add: registered_names_def)

lemma registered_names_append [simp]:
  "registered_names (xs @ ys) = registered_names xs @ registered_names ys"
  by (simp add: registered_names_def)

lemma registered_names_map [simp]:
  "registered_names (map (\<lambda>lang. TaskRegistry_add (f lang)) ls)
   = map (\<lambda>lang. name (f lang)) ls"
  by (simp add: registered_names_def)

lemma registered_names_pairs [simp]:
  "registered_names
     (concat (map (\<lambda>lang. [TaskRegistry_add (f lang), TaskRegistry_add (g lang)]) ls))
   = concat (map (\<lambda>lang. [name (f lang), name (g lang)]) ls)"
  by (simp add: registered_names_def map_name_pairs)

lemma registered_names_module_body:
  "registered_names (module_body E) =
     mc4 E @ wiki
     @ [''xnli_train''] @ map xnli_dev_test_name XNLI_LANGS @ [''xnli_dev_test.all_langs'']
     @ [''paws'']
     @ concat (map (\<lambda>lang. [pawsx_dev_test_name lang, pawsx_translate_name lang])
         (PAWSX_LANGS E))
     @ [''pawsx_dev_test.all_langs'']
     @ [''tydiqa_train_dev''] @ map tydiqa_dev_name TYDIQA_LANGS
     @ [''squad_train_dev'']
     @ map xquad_translate_train_dev_name (XQUAD_LANGS_TRAIN_DEV E)
     @ map xquad_test_name (XQUAD_LANGS_TEST E)
     @ [''xquad_test.all_langs'']
     @ [''snow'']"
  by (simp add: section_defs mc4_def wiki_def)

subsection \<open>Task names\<close>

text \<open>
  Replacing one character by another loses nothing on strings that do not already contain
  the new character; on others it can: \<open>a-b\<close> and \<open>a_b\<close> get the same name.
\<close>

lemma str_replace_inj:
  "new \<notin> set a \<Longrightarrow> new \<notin> set b \<Longrightarrow> str_replace old new a = str_replace old new b
   \<Longrightarrow> a = b"
proof (induction a arbitrary: b)
  case Nil
  then show ?case by (simp add: str_replace_def)
next
  case (Cons x xs)
  from Cons.prems(3) obtain y ys where b: "b = y # ys"
    by (cases b) (simp_all add: str_replace_def)
  from Cons.prems b have hd: "x = y"
    by (simp add: str_replace_def split: if_splits)
  from Cons.prems b have "str_replace old new xs = str_replace old new ys"
    by (simp add: str_replace_def)
  with Cons.IH [of ys] Cons.prems b have "xs = ys" by simp
  with hd b show ?case by simp
qed

lemma mc4_name_collision: "mc4_name ''a-b'' = mc4_name ''a_b''"
  by (simp add: mc4_name_def str_replace_def)

lemma mc4_name_inj_on:
  assumes "\<forall>l \<in> set ls. CHR ''_'' \<notin> set l"
  shows "inj_on mc4_name (set ls)"
  using assms by (auto simp: inj_on_def mc4_name_def dest: str_replace_inj)

lemma wiki_name_inj_on:
  assumes "\<forall>l \<in> set ls. CHR ''_'' \<notin> set l"
  shows "inj_on wiki_name (set ls)"
  using assms by (auto simp: inj_on_def wiki_name_def dest: str_replace_inj)

lemma WIKI_LANGS_distinct: "distinct WIKI_LANGS"
  by code_simp

lemma WIKI_LANGS_no_underscore: "\<forall>l \<in> set WIKI_LANGS. CHR ''_'' \<notin> set l"
  by code_simp

lemma XNLI_LANGS_distinct: "distinct XNLI_LANGS"
  by code_simp

lemma XNLI_LANGS_no_all_langs: "''all_langs'' \<notin> set XNLI_LANGS"
  by code_simp

lemma TYDIQA_LANGS_distinct: "distinct TYDIQA_LANGS"
  by code_simp

lemma distinct_pairs:
  assumes "distinct ls" and "inj f" and "inj g" and "\<And>a b. f a \<noteq> g b"
  shows "distinct (concat (map (\<lambda>lang. [f lang, g lang]) ls))"
  using assms(1)
proof (induction ls)
  case Nil
  then show ?case by simp
next
  case (Cons l ls)
  have "f l \<noteq> g l" by (rule assms(4))
  moreover have "f l \<notin> set (concat (map (\<lambda>lang. [f lang, g lang]) ls))"
    using Cons.prems assms(2,4) by (auto dest: injD)
  moreover have "g l \<notin> set (concat (map (\<lambda>lang. [f lang, g lang]) ls))"
    using Cons.prems assms(3) assms(4) [symmetric] by (auto dest: injD)
  ultimately show ?case using Cons by simp
qed

lemma registered_names_distinct:
  assumes mc4_d: "distinct (MC4_LANGUAGES E)"
      and mc4_u: "\<forall>l \<in> set (MC4_LANGUAGES E). CHR ''_'' \<notin> set l"
      and paws_d: "distinct (PAWSX_LANGS E)"
      and paws_a: "''all_langs'' \<notin> set (PAWSX_LANGS E)"
      and td_d: "distinct (XQUAD_LANGS_TRAIN_DEV E)"
      and test_d: "distinct (XQUAD_LANGS_TEST E)"
      and test_a: "''all_langs'' \<notin> set (XQUAD_LANGS_TEST E)"
  shows "distinct (registered_names (module_body E))"
proof -
  have d1: "distinct (mc4 E)"
    unfolding mc4_def MC4_LANGS_def
    using mc4_d mc4_name_inj_on [OF mc4_u] by (simp add: distinct_map)
  have d2: "distinct wiki"
    unfolding wiki_def
    using WIKI_LANGS_distinct wiki_name_inj_on [OF WIKI_LANGS_no_underscore]
    by (simp add: distinct_map)
  have d3: "distinct (map xnli_dev_test_name XNLI_LANGS)"
    unfolding xnli_dev_test_name_def
    using XNLI_LANGS_distinct by (simp add: distinct_map inj_on_def)
  have d4: "distinct (concat (map (\<lambda>lang. [pawsx_dev_test_name lang, pawsx_translate_name lang])
              (PAWSX_LANGS E)))"
    using paws_d by (intro distinct_pairs) (simp_all add: inj_def name_defs)
  have d5: "distinct (map tydiqa_dev_name TYDIQA_LANGS)"
    unfolding tydiqa_dev_name_def
    using TYDIQA_LANGS_distinct by (simp add: distinct_map inj_on_def)
  have d6: "distinct (map xquad_translate_train_dev_name (XQUAD_LANGS_TRAIN_DEV E))"
    unfolding xquad_translate_train_dev_name_def
    using td_d by (simp add: distinct_map inj_on_def)
  have d7: "distinct (map xquad_test_name (XQUAD_LANGS_TEST E))"
    unfolding xquad_test_name_def
    using test_d by (simp add: distinct_map inj_on_def)
  have a1: "''xnli_dev_test.all_langs'' \<notin> xnli_dev_test_name ` set XNLI_LANGS"
    using XNLI_LANGS_no_all_langs by (auto simp: xnli_dev_test_name_def)
  have a2: "''pawsx_dev_test.all_langs'' \<notin> pawsx_dev_test_name ` set (PAWSX_LANGS E)"
    using paws_a by (auto simp: pawsx_dev_test_name_def)
  have a3: "''xquad_test.all_langs'' \<notin> xquad_test_name ` set (XQUAD_LANGS_TEST E)"
    using test_a by (auto simp: xquad_test_name_def)
  show ?thesis
    unfolding registered_names_module_body
    using d1 d2 d3 d4 d5 d6 d7 a1 a2 a3
    by (auto simp: set_pairs mc4_def wiki_def name_defs)
qed

text \<open>
  C4. Every template sends distinct language codes of its list to distinct task names, and
  the task names the module registers are pairwise distinct. The lists \<open>MC4_LANGUAGES\<close>,
  \<open>PAWSX_LANGS\<close>, \<open>XQUAD_LANGS_TRAIN_DEV\<close> and \<open>XQUAD_LANGS_TEST\<close> are imported; what is
  assumed of them is that they have no repeated code, that no mC4 code contains an
  underscore, and that \<open>all_langs\<close> is not a PAWS-X or XQuAD test code.
\<close>

theorem task_names_injective_and_distinct:
  assumes "distinct (MC4_LANGUAGES E)"
      and "\<forall>l \<in> set (MC4_LANGUAGES E). CHR ''_'' \<notin> set l"
      and "distinct (PAWSX_LANGS E)"
      and "''all_langs'' \<notin> set (PAWSX_LANGS E)"
      and "distinct (XQUAD_LANGS_TRAIN_DEV E)"
      and "distinct (XQUAD_LANGS_TEST E)"
      and "''all_langs'' \<notin> set (XQUAD_LANGS_TEST E)"
  shows "inj_on mc4_name (set (MC4_LANGS E))
         \<and> inj_on wiki_name (set WIKI_LANGS)
         \<and> inj_on xnli_dev_test_name (set XNLI_LANGS)
         \<and> inj_on pawsx_dev_test_name (set (PAWSX_LANGS E))
         \<and> inj_on pawsx_translate_name (set (PAWSX_LANGS E))
         \<and> inj_on tydiqa_dev_name (set TYDIQA_LANGS)
         \<and> inj_on xquad_translate_train_dev_name (set (XQUAD_LANGS_TRAIN_DEV E))
         \<and> inj_on xquad_test_name (set (XQUAD_LANGS_TEST E))
         \<and> distinct (registered_names (module_body E))"
proof -
  have "inj_on mc4_name (set (MC4_LANGS E))"
    unfolding MC4_LANGS_def using assms(2) by (rule mc4_name_inj_on)
  moreover have "inj_on wiki_name (set WIKI_LANGS)"
    using WIKI_LANGS_no_underscore by (rule wiki_name_inj_on)
  moreover have "inj_on xnli_dev_test_name A" "inj_on pawsx_dev_test_name A"
    "inj_on pawsx_translate_name A" "inj_on tydiqa_dev_name A"
    "inj_on xquad_translate_train_dev_name A" "inj_on xquad_test_name A" for A
    by (simp_all add: inj_on_def name_defs)
  moreover have "distinct (registered_names (module_body E))"
    using assms by (rule registered_names_distinct)
  ultimately show ?thesis by blast
qed

theorem task_names_injective_and_distinct_witness:
  "distinct (MC4_LANGUAGES example_externals)
   \<and> MC4_LANGUAGES example_externals = [''af'', ''bg-Latn'']
   \<and> CHR ''_'' \<notin> set ''af'' \<and> CHR ''_'' \<notin> set ''bg-Latn''
   \<and> distinct (PAWSX_LANGS example_externals)
   \<and> ''all_langs'' \<notin> set (PAWSX_LANGS example_externals)
   \<and> distinct (XQUAD_LANGS_TRAIN_DEV example_externals)
   \<and> distinct (XQUAD_LANGS_TEST example_externals)
   \<and> ''all_langs'' \<notin> set (XQUAD_LANGS_TEST example_externals)
   \<and> inj_on mc4_name (set (MC4_LANGS example_externals))
   \<and> distinct (registered_names (module_body example_externals))"
proof -
  have h1: "distinct (MC4_LANGUAGES example_externals)"
    and h2: "\<forall>l \<in> set (MC4_LANGUAGES example_externals). CHR ''_'' \<notin> set l"
    and h3: "distinct (PAWSX_LANGS example_externals)"
    and h4: "''all_langs'' \<notin> set (PAWSX_LANGS example_externals)"
    and h5: "distinct (XQUAD_LANGS_TRAIN_DEV example_externals)"
    and h6: "distinct (XQUAD_LANGS_TEST example_externals)"
    and h7: "''all_langs'' \<notin> set (XQUAD_LANGS_TEST example_externals)"
    by (simp_all add: example_externals_def)
  have h8: "MC4_LANGUAGES example_externals = [''af'', ''bg-Latn'']"
    and h9: "CHR ''_'' \<notin> set ''af''" and h10: "CHR ''_'' \<notin> set ''bg-Latn''"
    by (simp_all add: example_externals_def)
  from task_names_injective_and_distinct [OF h1 h2 h3 h4 h5 h6 h7] h1 h3 h4 h5 h6 h7 h8 h9 h10
  show ?thesis by blast
qed

subsection \<open>Mixtures\<close>

lemma mixtures_resolved_append:
  "mixtures_resolved seen (xs @ ys)
   = (mixtures_resolved seen xs \<and> mixtures_resolved (seen @ registered_names xs) ys)"
  by (induction seen xs rule: mixtures_resolved.induct) simp_all

lemma mixtures_resolved_tasks [simp]:
  "mixtures_resolved seen (map (\<lambda>lang. TaskRegistry_add (f lang)) ls)"
  by (induction ls arbitrary: seen) simp_all

lemma mixtures_resolved_pairs [simp]:
  "mixtures_resolved seen
     (concat (map (\<lambda>lang. [TaskRegistry_add (f lang), TaskRegistry_add (g lang)]) ls))"
  by (induction ls arbitrary: seen) simp_all

lemma module_body_resolved: "mixtures_resolved [] (module_body E)"
  unfolding section_defs
  by (auto simp: mixtures_resolved_append set_pairs mc4_def wiki_def xnli_zeroshot_def pawsx_def
        pawsx_translate_def tydiqa_def xquad_test_def xquad_zeroshot_def
        xquad_translate_train_dev_def xquad_translate_def)

lemma registered_mixtures_Nil [simp]: "registered_mixtures [] = []"
  by (simp add: registered_mixtures_def)

lemma registered_mixtures_Cons [simp]:
  "registered_mixtures (x # xs) = registered_mixture x @ registered_mixtures xs"
  by (simp add: registered_mixtures_def)

lemma registered_mixtures_append [simp]:
  "registered_mixtures (xs @ ys) = registered_mixtures xs @ registered_mixtures ys"
  by (simp add: registered_mixtures_def)

lemma registered_mixtures_tasks [simp]:
  "registered_mixtures (map (\<lambda>lang. TaskRegistry_add (f lang)) ls) = []"
  by (induction ls) simp_all

lemma registered_mixtures_pairs [simp]:
  "registered_mixtures
     (concat (map (\<lambda>lang. [TaskRegistry_add (f lang), TaskRegistry_add (g lang)]) ls)) = []"
  by (induction ls) simp_all

text \<open>The module registers nine mixtures, in this order.\<close>

lemma registered_mixtures_module_body:
  "registered_mixtures (module_body E) =
     [''mc4'', ''wiki'', ''mc4_wiki'', ''xnli_zeroshot'', ''pawsx_zeroshot'', ''pawsx_translate'',
      ''tydiqa'', ''xquad_zeroshot'', ''xquad_translate'']"
  by (simp add: section_defs)

text \<open>
  C5. Wherever the module body registers a mixture, the mixture is one of the nine named
  ones and each task name in its list is the name of a task registered by a statement
  that comes before it.
\<close>

theorem mixture_tasks_registered_earlier:
  assumes "module_body E = pre @ MixtureRegistry_add n ts r # post"
  shows "n \<in> set [''mc4'', ''wiki'', ''mc4_wiki'', ''xnli_zeroshot'', ''pawsx_zeroshot'',
                   ''pawsx_translate'', ''tydiqa'', ''xquad_zeroshot'', ''xquad_translate'']
         \<and> set ts \<subseteq> set (registered_names pre)"
proof
  have "n \<in> set (registered_mixtures (module_body E))"
    unfolding assms by simp
  then show "n \<in> set [''mc4'', ''wiki'', ''mc4_wiki'', ''xnli_zeroshot'', ''pawsx_zeroshot'',
                   ''pawsx_translate'', ''tydiqa'', ''xquad_zeroshot'', ''xquad_translate'']"
    unfolding registered_mixtures_module_body .
  have "mixtures_resolved [] (pre @ MixtureRegistry_add n ts r # post)"
    using module_body_resolved [of E] unfolding assms .
  then show "set ts \<subseteq> set (registered_names pre)"
    by (simp add: mixtures_resolved_append)
qed

theorem mixture_tasks_registered_earlier_witness:
  "module_body example_externals =
     [TaskRegistry_add (mc4_task ''af''), TaskRegistry_add (mc4_task ''bg-Latn'')]
     @ MixtureRegistry_add ''mc4'' [''mc4.af'', ''mc4.bg_Latn''] (Rate_function DEFAULT_MIX_RATE)
     # drop 3 (module_body example_externals)
   \<and> set [''mc4.af'', ''mc4.bg_Latn'']
      \<subseteq> set (registered_names
               [TaskRegistry_add (mc4_task ''af''), TaskRegistry_add (mc4_task ''bg-Latn'')])"
proof -
  have h: "module_body example_externals =
     [TaskRegistry_add (mc4_task ''af''), TaskRegistry_add (mc4_task ''bg-Latn'')]
     @ MixtureRegistry_add ''mc4'' [''mc4.af'', ''mc4.bg_Latn''] (Rate_function DEFAULT_MIX_RATE)
     # drop 3 (module_body example_externals)"
    by (simp add: module_body_def pretraining_section_def example_externals_def MC4_LANGS_def
          mc4_def mc4_name_def str_replace_def)
  from mixture_tasks_registered_earlier [OF h] h show ?thesis by simp
qed

subsection \<open>Feature schema and the snow task\<close>

lemma task_output_features [simp]:
  "output_features (mc4_task l) = DEFAULT_OUTPUT_FEATURES"
  "output_features (wiki_task l) = DEFAULT_OUTPUT_FEATURES"
  "output_features xnli_train_task = DEFAULT_OUTPUT_FEATURES"
  "output_features (xnli_dev_test_task l) = DEFAULT_OUTPUT_FEATURES"
  "output_features xnli_dev_test_all_langs_task = DEFAULT_OUTPUT_FEATURES"
  "output_features paws_task = DEFAULT_OUTPUT_FEATURES"
  "output_features (pawsx_dev_test_task l) = DEFAULT_OUTPUT_FEATURES"
  "output_features (pawsx_translate_task l) = DEFAULT_OUTPUT_FEATURES"
  "output_features pawsx_dev_test_all_langs_task = DEFAULT_OUTPUT_FEATURES"
  "output_features tydiqa_train_dev_task = DEFAULT_OUTPUT_FEATURES"
  "output_features (tydiqa_dev_task l) = DEFAULT_OUTPUT_FEATURES"
  "output_features squad_train_dev_task = DEFAULT_OUTPUT_FEATURES"
  "output_features (xquad_translate_train_dev_task l) = DEFAULT_OUTPUT_FEATURES"
  "output_features (xquad_test_task l) = DEFAULT_OUTPUT_FEATURES"
  "output_features xquad_test_all_langs_task = DEFAULT_OUTPUT_FEATURES"
  "output_features snow_task = DEFAULT_OUTPUT_FEATURES"
  by (simp_all add: task_defs)

text \<open>
  C10. Every task the module registers has \<open>DEFAULT_OUTPUT_FEATURES\<close> as its output
  features. That schema has the features \<open>inputs\<close> and \<open>targets\<close>, both with the one
  SentencePiece vocabulary and \<open>add_eos\<close> set; \<open>inputs\<close> is not required, whatever the
  library's default, and \<open>targets\<close> leaves \<open>required\<close> to that default, so it is required
  when the default is \<open>True\<close>.
\<close>

theorem every_task_uses_default_output_features:
  "(\<forall>t \<in> set (registered_tasks (module_body E)). output_features t = DEFAULT_OUTPUT_FEATURES)
   \<and> (\<exists>fi ft. DEFAULT_OUTPUT_FEATURES = [(''inputs'', fi), (''targets'', ft)]
        \<and> vocabulary fi = DEFAULT_VOCAB \<and> vocabulary ft = DEFAULT_VOCAB
        \<and> DEFAULT_VOCAB = SentencePieceVocabulary DEFAULT_SPM_PATH
        \<and> add_eos fi \<and> add_eos ft
        \<and> required fi = Some False \<and> required ft = None
        \<and> \<not> is_required library_default fi
        \<and> is_required library_default ft = library_default
        \<and> is_required True ft)"
proof
  show "\<forall>t \<in> set (registered_tasks (module_body E)). output_features t = DEFAULT_OUTPUT_FEATURES"
    unfolding registered_tasks_module_body by (auto simp: set_pairs)
  show "\<exists>fi ft. DEFAULT_OUTPUT_FEATURES = [(''inputs'', fi), (''targets'', ft)]
        \<and> vocabulary fi = DEFAULT_VOCAB \<and> vocabulary ft = DEFAULT_VOCAB
        \<and> DEFAULT_VOCAB = SentencePieceVocabulary DEFAULT_SPM_PATH
        \<and> add_eos fi \<and> add_eos ft
        \<and> required fi = Some False \<and> required ft = None
        \<and> \<not> is_required library_default fi
        \<and> is_required library_default ft = library_default
        \<and> is_required True ft"
    by (simp add: DEFAULT_OUTPUT_FEATURES_def is_required_def DEFAULT_VOCAB_def)
qed

theorem every_task_uses_default_output_features_witness:
  "snow_task \<in> set (registered_tasks (module_body example_externals))
   \<and> output_features snow_task = DEFAULT_OUTPUT_FEATURES"
proof -
  have h: "snow_task \<in> set (registered_tasks (module_body example_externals))"
    by (simp add: registered_tasks_module_body)
  from every_task_uses_default_output_features [of example_externals] h
  show ?thesis by blast
qed

lemma filter_map_none: "(\<And>x. \<not> P (f x)) \<Longrightarrow> filter P (map f xs) = []"
  by (induction xs) simp_all

lemma filter_pairs_none:
  "(\<And>x. \<not> P (f x)) \<Longrightarrow> (\<And>x. \<not> P (g x))
   \<Longrightarrow> filter P (concat (map (\<lambda>lang. [f lang, g lang]) xs)) = []"
  by (induction xs) simp_all

text \<open>
  C8. The module registers one task named \<open>snow\<close>. It is a text-line task that reads
  three local files, one for each of the splits train, validation and test, and its one
  text preprocessor is \<open>parse_tsv\<close> with the field names \<open>inputs\<close> and \<open>targets\<close>, in that
  order.
\<close>

theorem snow_task_configuration:
  "filter (\<lambda>t. name t = ''snow'') (registered_tasks (module_body E)) = [snow_task]
   \<and> task_cls snow_task = Some TextLineTask
   \<and> split_to_filepattern snow_task =
       Some [(''train'', ''./snow_t15_23_train.tsv''),
             (''validation'', ''./snow_t15_23_dev.tsv''),
             (''test'', ''./snow_t15_23_test.tsv'')]
   \<and> text_preprocessor snow_task = Listed [parse_tsv [''inputs'', ''targets'']]"
proof -
  have "filter (\<lambda>t. name t = ''snow'') (registered_tasks (module_body E)) = [snow_task]"
    unfolding registered_tasks_module_body
    by (simp add: filter_map_none filter_pairs_none name_defs)
  then show ?thesis
    by (simp add: snow_task_def snow_tsv_path_def)
qed

subsection \<open>The tokenizer table\<close>

lemma table_writes_Nil [simp]: "table_writes [] = []"
  by (simp add: table_writes_def)

lemma table_writes_Cons [simp]: "table_writes (x # xs) = table_write x @ table_writes xs"
  by (simp add: table_writes_def)

lemma table_writes_append [simp]: "table_writes (xs @ ys) = table_writes xs @ table_writes ys"
  by (simp add: table_writes_def)

lemma table_writes_tasks [simp]:
  "table_writes (map (\<lambda>lang. TaskRegistry_add (f lang)) ls) = []"
  by (induction ls) simp_all

lemma table_writes_pairs [simp]:
  "table_writes
     (concat (map (\<lambda>lang. [TaskRegistry_add (f lang), TaskRegistry_add (g lang)]) ls)) = []"
  by (induction ls) simp_all

lemma table_writes_module_body: "table_writes (module_body E) = [(''ja'', tokenizer_ja E)]"
  by (simp add: section_defs)

lemma TOKENIZERS_fold:
  "TOKENIZERS (fold exec_stmt body s)
   = fold (\<lambda>(k, f) table. table(k \<mapsto> f)) (table_writes body) (TOKENIZERS s)"
proof (induction body arbitrary: s)
  case Nil
  then show ?case by simp
next
  case (Cons x xs)
  then show ?case by (cases x) simp_all
qed

text \<open>
  C6. Importing the module writes \<open>TOKENIZERS\<close> once, storing the Japanese tokenizer under
  the key \<open>ja\<close>: the table after the import is the table before it with that one entry
  set. A call of \<open>bleu\<close> leaves the state of the module, the table included, as it was.
\<close>

theorem tokenizer_table_written_once:
  "table_writes (module_body E) = [(''ja'', tokenizer_ja E)]
   \<and> TOKENIZERS (import_module E s) = (TOKENIZERS s)(''ja'' \<mapsto> tokenizer_ja E)
   \<and> snd (bleu L s' targets predictions) = s'"
  by (simp add: import_module_def TOKENIZERS_fold table_writes_module_body bleu_def)

subsection \<open>The metric function\<close>

lemma tf_unbound: "load_global ''tf'' = Inl (NameError ''tf'')"
  by (simp add: load_global_def module_globals_def builtin_names_def)

lemma corpus_bleu_bound: "load_global ''corpus_bleu'' = Inr ()"
  by (simp add: load_global_def module_globals_def)

lemma as_text_raises [simp]: "tf_compat_as_text L x = Inl (NameError ''tf'')"
  by (simp add: tf_compat_as_text_def tf_unbound)

lemma comprehension_as_text_raises:
  "xs \<noteq> [] \<Longrightarrow> comprehension (tf_compat_as_text L) xs = Inl (NameError ''tf'')"
  by (cases xs) simp_all

text \<open>
  The only calls that reach \<open>corpus_bleu\<close> are those in which no text is converted: no
  predictions, and targets that are all empty lists. They show the arguments of the call.
\<close>

lemma bleu_without_texts:
  "fst (bleu L s [List []] []) =
     Inr [(''bleu'',
           corpus_bleu L [] [List []]
             \<lparr>smooth_method = ''exp'', smooth_value = 0, force = False, lowercase = False,
              tokenize = ''ja'', use_effective_order = False\<rparr>
             (TOKENIZERS s))]"
  by (simp add: bleu_def bleu_result_def convert_targets_def corpus_bleu_bound
        corpus_bleu_kwargs_def)

text \<open>
  C9. A call of \<open>bleu\<close> with a non-empty list of predictions raises \<open>NameError\<close> for the
  name \<open>tf\<close>, whatever the targets and whatever \<open>corpus_bleu\<close> would compute.
\<close>

theorem bleu_raises_name_error:
  assumes "predictions \<noteq> []"
  shows "bleu L s targets predictions = (Inl (NameError ''tf''), s)"
  using assms by (simp add: bleu_def bleu_result_def comprehension_as_text_raises)

theorem bleu_raises_name_error_witness:
  "[Text ''a''] \<noteq> []
   \<and> bleu example_library empty_state [Text ''a''] [Text ''a'']
       = (Inl (NameError ''tf''), empty_state)"
  using bleu_raises_name_error [of "[Text ''a'']" example_library empty_state "[Text ''a'']"]
  by simp

text \<open>
  C2. For a prediction equal to its reference, \<open>bleu\<close> does not return the metric
  \<open>{"bleu": 100}\<close>: it raises \<open>NameError\<close>; and so it does for a mismatched pair.
\<close>

theorem bleu_equal_pair_raises:
  "fst (bleu L s [Text ''a b c''] [Text ''a b c'']) = Inl (NameError ''tf'')
   \<and> fst (bleu L s [Text ''a b c''] [Text ''a b c'']) \<noteq> Inr [(''bleu'', 100)]
   \<and> fst (bleu L s [Text ''a b c''] [Text ''a b d'']) = Inl (NameError ''tf'')"
  by (simp add: bleu_def bleu_result_def comprehension_as_text_raises)

text \<open>
  C3. For a targets list of texts, the conversion that would wrap the list raises
  \<open>NameError\<close>, and \<open>bleu\<close> returns no metric, with or without predictions.
\<close>

theorem bleu_single_reference_raises:
  "convert_targets L [Text ''a'', Text ''b''] = Inl (NameError ''tf'')
   \<and> fst (bleu L s [Text ''a'', Text ''b''] [Text ''a'', Text ''b'']) = Inl (NameError ''tf'')
   \<and> fst (bleu L s [Text ''a'', Text ''b''] []) = Inl (NameError ''tf'')"
  by (simp add: bleu_def bleu_result_def convert_targets_def comprehension_as_text_raises)

end
